theory Spec2Isabelle
  imports Complex_Main "HOL-Library.Log_Nat" "HOL-Library.Sublist"
begin

section \<open>Python values and exceptions\<close>

text \<open>
  The plugin reads a loosely typed configuration (a JSON-like dictionary), so the values
  it inspects with \<open>isinstance\<close>, truth tests and dictionary lookups are modelled as a
  datatype of Python values. A float is either a finite number (every finite double is a
  rational), an infinity or NaN; the rounding of float arithmetic is modelled separately
  where a function computes with floats. Exceptions are values; \<open>HostError\<close> stands
  for any other exception that a call into the host raises.
\<close>

datatype pyexc =
  ValueError | TypeError | OverflowError | ZeroDivisionError | AttributeError | HostError

datatype pyfloat = Finite rat | PosInf | NegInf | NaN

datatype pyval =
    PNone
  | PBool bool
  | PInt int
  | PFloat pyfloat
  | PStr string
  | PList "pyval list"
  | PTuple "pyval list"
  | PDict "(string \<times> pyval) list"

type_synonym pydict = "(string \<times> pyval) list"

text \<open>\<open>d.get(k, default)\<close> on a dictionary with string keys.\<close>

definition dict_get :: "pydict \<Rightarrow> string \<Rightarrow> pyval \<Rightarrow> pyval" where
  "dict_get d k dflt = (case map_of d k of None \<Rightarrow> dflt | Some v \<Rightarrow> v)"

text \<open>Python's truth test (\<open>if v\<close>, \<open>not v\<close>).\<close>

fun truthy :: "pyval \<Rightarrow> bool" where
  "truthy PNone = False"
| "truthy (PBool b) = b"
| "truthy (PInt i) = (i \<noteq> 0)"
| "truthy (PFloat f) = (f \<noteq> Finite 0)"
| "truthy (PStr s) = (s \<noteq> [])"
| "truthy (PList xs) = (xs \<noteq> [])"
| "truthy (PTuple xs) = (xs \<noteq> [])"
| "truthy (PDict d) = (d \<noteq> [])"

section \<open>Calendar dates\<close>

text \<open>
  \<open>datetime.date\<close>: a proleptic Gregorian date with \<open>1 \<le> year \<le> 9999\<close>. The
  difference of two dates is the difference of their ordinals (\<open>date.toordinal\<close>),
  a whole number of days.
\<close>

record date =
  year :: int
  month :: int
  day :: int

definition is_leap :: "int \<Rightarrow> bool" where
  "is_leap y = (y mod 4 = 0 \<and> (y mod 100 \<noteq> 0 \<or> y mod 400 = 0))"

definition days_in_month :: "int \<Rightarrow> int \<Rightarrow> int" where
  "days_in_month y m =
     (if m = 2 then (if is_leap y then 29 else 28)
      else if m = 4 \<or> m = 6 \<or> m = 9 \<or> m = 11 then 30 else 31)"

definition days_before_year :: "int \<Rightarrow> int" where
  "days_before_year y = (y - 1) * 365 + (y - 1) div 4 - (y - 1) div 100 + (y - 1) div 400"

definition days_before_month :: "int \<Rightarrow> int \<Rightarrow> int" where
  "days_before_month y m =
     (if m = 1 then 0 else if m = 2 then 31 else if m = 3 then 59 else if m = 4 then 90
      else if m = 5 then 120 else if m = 6 then 151 else if m = 7 then 181
      else if m = 8 then 212 else if m = 9 then 243 else if m = 10 then 273
      else if m = 11 then 304 else 334)
     + (if m > 2 \<and> is_leap y then 1 else 0)"

definition toordinal :: "date \<Rightarrow> int" where
  "toordinal d = days_before_year (year d) + days_before_month (year d) (month d) + day d"

definition valid_date :: "date \<Rightarrow> bool" where
  "valid_date d =
     (1 \<le> year d \<and> year d \<le> 9999 \<and> 1 \<le> month d \<and> month d \<le> 12
      \<and> 1 \<le> day d \<and> day d \<le> days_in_month (year d) (month d))"

text \<open>\<open>(target_date - today).days\<close>\<close>

definition date_sub_days :: "date \<Rightarrow> date \<Rightarrow> int" where
  "date_sub_days d t = toordinal d - toordinal t"

text \<open>Calendar order: year, then month, then day.\<close>

definition date_less :: "date \<Rightarrow> date \<Rightarrow> bool" where
  "date_less a b =
     (year a < year b \<or> (year a = year b \<and>
       (month a < month b \<or> (month a = month b \<and> day a < day b))))"

text \<open>\<open>datetime.date(y, m, d)\<close> raises ValueError outside the calendar.\<close>

definition make_date :: "int \<Rightarrow> int \<Rightarrow> int \<Rightarrow> pyexc + date" where
  "make_date y m d =
     (let dt = \<lparr>year = y, month = m, day = d\<rparr>
      in if valid_date dt then Inr dt else Inl ValueError)"

section \<open>Parsing a date: \<open>datetime.strptime(s, '%Y-%m-%d')\<close>\<close>

text \<open>
  The library turns the format into the regular expression
  \<^verbatim>\<open>(\d\d\d\d)-(1[0-2]|0[1-9]|[1-9])-(3[0-1]|[1-2]\d|0[1-9]|[1-9]| [1-9])\<close>,
  matches it at the start of the string, raises ValueError when it does not match or
  when text remains after the match, and builds the date (ValueError when the day does
  not exist). An argument that is not a string raises TypeError. Alternatives are tried
  from the left; after a two-character month the one-character alternative can never be
  followed by the dash, so the first matching alternative decides. Characters are the
  8-bit characters of HOL, among which \<^verbatim>\<open>\d\<close> matches the ASCII digits only.
\<close>

definition is_digit :: "char \<Rightarrow> bool" where
  "is_digit c = ((48::nat) \<le> of_char c \<and> of_char c \<le> (57::nat))"

definition is_digit19 :: "char \<Rightarrow> bool" where
  "is_digit19 c = ((49::nat) \<le> of_char c \<and> of_char c \<le> (57::nat))"

definition digit_val :: "char \<Rightarrow> int" where
  "digit_val c = int (of_char c) - 48"

fun match_year :: "string \<Rightarrow> (int \<times> string) option" where
  "match_year (a # b # c # d # r) =
     (if is_digit a \<and> is_digit b \<and> is_digit c \<and> is_digit d
      then Some (1000 * digit_val a + 100 * digit_val b + 10 * digit_val c + digit_val d, r)
      else None)"
| "match_year _ = None"

fun match_month :: "string \<Rightarrow> (int \<times> string) option" where
  "match_month (a # b # r) =
     (if a = CHR ''1'' \<and> (b = CHR ''0'' \<or> b = CHR ''1'' \<or> b = CHR ''2'')
        then Some (10 + digit_val b, r)
      else if a = CHR ''0'' \<and> is_digit19 b then Some (digit_val b, r)
      else if is_digit19 a then Some (digit_val a, b # r)
      else None)"
| "match_month [a] = (if is_digit19 a then Some (digit_val a, []) else None)"
| "match_month [] = None"

fun match_day :: "string \<Rightarrow> (int \<times> string) option" where
  "match_day (a # b # r) =
     (if a = CHR ''3'' \<and> (b = CHR ''0'' \<or> b = CHR ''1'') then Some (30 + digit_val b, r)
      else if (a = CHR ''1'' \<or> a = CHR ''2'') \<and> is_digit b
        then Some (10 * digit_val a + digit_val b, r)
      else if a = CHR ''0'' \<and> is_digit19 b then Some (digit_val b, r)
      else if is_digit19 a then Some (digit_val a, b # r)
      else if a = CHR '' '' \<and> is_digit19 b then Some (digit_val b, r)
      else None)"
| "match_day [a] = (if is_digit19 a then Some (digit_val a, []) else None)"
| "match_day [] = None"

definition expect_dash :: "string \<Rightarrow> string option" where
  "expect_dash s = (case s of [] \<Rightarrow> None | c # r \<Rightarrow> if c = CHR ''-'' then Some r else None)"

definition strptime_ymd :: "pyval \<Rightarrow> pyexc + date" where
  "strptime_ymd v =
     (case v of
        PStr s \<Rightarrow>
          (case match_year s of
             None \<Rightarrow> Inl ValueError
           | Some (y, r1) \<Rightarrow>
          (case expect_dash r1 of
             None \<Rightarrow> Inl ValueError
           | Some r2 \<Rightarrow>
          (case match_month r2 of
             None \<Rightarrow> Inl ValueError
           | Some (m, r3) \<Rightarrow>
          (case expect_dash r3 of
             None \<Rightarrow> Inl ValueError
           | Some r4 \<Rightarrow>
          (case match_day r4 of
             None \<Rightarrow> Inl ValueError
           | Some (d, r5) \<Rightarrow>
               if r5 \<noteq> [] then Inl ValueError else make_date y m d)))))
      | _ \<Rightarrow> Inl TypeError)"

section \<open>Formatting an integer: \<open>f"{n}"\<close>\<close>

definition digit_char :: "nat \<Rightarrow> char" where
  "digit_char n = char_of (48 + n)"

fun nat_digits :: "nat \<Rightarrow> string" where
  "nat_digits n =
     (if n < 10 then [digit_char n] else nat_digits (n div 10) @ [digit_char (n mod 10)])"

declare nat_digits.simps [simp del]

definition py_str_int :: "int \<Rightarrow> string" where
  "py_str_int i = (if i < 0 then CHR ''-'' # nat_digits (nat (- i)) else nat_digits (nat i))"

section \<open>The countdown calculation\<close>

record countdown_result =
  days :: int
  hours :: int
  minutes :: int
  is_expired :: bool
  is_today :: bool
  text_str :: string

definition error_result :: countdown_result where
  "error_result =
     \<lparr>days = 0, hours = 0, minutes = 0, is_expired = False, is_today = False,
      text_str = ''Error''\<rparr>"

text \<open>
  \<open>_calculate_time_remaining\<close>; \<open>today\<close> is what \<open>date.today()\<close> returns. Every
  exception of the body is caught by \<open>except Exception\<close> and becomes the error result,
  so the function is total and returns a result.
\<close>

definition calculate_time_remaining :: "date \<Rightarrow> pyval \<Rightarrow> countdown_result" where
  "calculate_time_remaining today target_date_str =
     (case strptime_ymd target_date_str of
        Inl e \<Rightarrow> error_result
      | Inr target_date \<Rightarrow>
          (let delta = date_sub_days target_date today in
           if delta < 0 then
             \<lparr>days = \<bar>delta\<bar>, hours = 0, minutes = 0, is_expired = True, is_today = False,
              text_str = py_str_int \<bar>delta\<bar> @ ''d ago''\<rparr>
           else if delta = 0 then
             \<lparr>days = 0, hours = 0, minutes = 0, is_expired = False, is_today = True,
              text_str = ''TODAY!''\<rparr>
           else if delta = 1 then
             \<lparr>days = 1, hours = 0, minutes = 0, is_expired = False, is_today = False,
              text_str = ''1 Day''\<rparr>
           else
             \<lparr>days = delta, hours = 0, minutes = 0, is_expired = False, is_today = False,
              text_str = py_str_int delta @ '' Days''\<rparr>))"


section \<open>Floats: rounding to binary64\<close>

text \<open>
  A Python float is an IEEE 754 binary64 number and every float operation returns the
  exact result rounded to the nearest float, ties to even. A finite float is modelled by
  its value, a rational; \<open>round_double\<close> is the rounding. \<open>binade x\<close> is the exponent
  \<open>e\<close> with \<open>2^e \<le> |x| < 2^(e+1)\<close>; the spacing of floats there is \<open>2^(e-52)\<close>, and
  \<open>2^(-1074)\<close> below the normal range.
\<close>

definition pow2 :: "int \<Rightarrow> rat" where
  "pow2 d = (if 0 \<le> d then 2 ^ nat d else 1 / 2 ^ nat (- d))"

definition round_half_even :: "rat \<Rightarrow> int" where
  "round_half_even x =
     (let f = \<lfloor>x\<rfloor>; r = x - of_int f
      in if r < 1 / 2 then f else if 1 / 2 < r then f + 1
         else if even f then f else f + 1)"

definition binade :: "rat \<Rightarrow> int" where
  "binade x =
     (let (a, b) = quotient_of \<bar>x\<bar>; d = bitlen a - bitlen b
      in if pow2 d \<le> \<bar>x\<bar> then d else d - 1)"

definition round_double :: "rat \<Rightarrow> pyfloat" where
  "round_double x =
     (if x = 0 then Finite 0
      else let e = max (binade x) (- 1022);
               ulp = pow2 (e - 52);
               y = of_int (round_half_even (x / ulp)) * ulp
           in if pow2 1024 \<le> \<bar>y\<bar> then (if 0 < x then PosInf else NegInf) else Finite y)"

text \<open>\<open>int(x)\<close> for a float: truncation toward zero; infinities and NaN raise.\<close>

definition trunc_rat :: "rat \<Rightarrow> int" where
  "trunc_rat q = (if 0 \<le> q then \<lfloor>q\<rfloor> else \<lceil>q\<rceil>)"

definition int_of_float :: "pyfloat \<Rightarrow> pyexc + int" where
  "int_of_float f =
     (case f of
        Finite q \<Rightarrow> Inr (trunc_rat q)
      | PosInf \<Rightarrow> Inl OverflowError
      | NegInf \<Rightarrow> Inl OverflowError
      | NaN \<Rightarrow> Inl ValueError)"

text \<open>\<open>a / b\<close> on integers, and the conversion of an integer operand to float.\<close>

definition py_truediv :: "int \<Rightarrow> int \<Rightarrow> pyexc + rat" where
  "py_truediv a b =
     (if b = 0 then Inl ZeroDivisionError
      else case round_double (of_int a / of_int b) of
             Finite q \<Rightarrow> Inr q
           | _ \<Rightarrow> Inl OverflowError)"

definition float_of_int :: "int \<Rightarrow> pyexc + rat" where
  "float_of_int i =
     (case round_double (of_int i) of Finite q \<Rightarrow> Inr q | _ \<Rightarrow> Inl OverflowError)"

definition bindE :: "pyexc + 'a \<Rightarrow> ('a \<Rightarrow> pyexc + 'b) \<Rightarrow> pyexc + 'b" where
  "bindE m f = (case m of Inl e \<Rightarrow> Inl e | Inr x \<Rightarrow> f x)"

section \<open>Fitting an image into the display: \<open>_calculate_fit_size\<close>\<close>

text \<open>\<open>int(img_width * scale)\<close>: the integer is converted to float, multiplied, truncated.\<close>

definition scaled_dim :: "int \<Rightarrow> rat \<Rightarrow> pyexc + int" where
  "scaled_dim n scale =
     bindE (float_of_int n) (\<lambda>fn. int_of_float (round_double (fn * scale)))"

definition calculate_fit_size :: "int \<times> int \<Rightarrow> int \<times> int \<Rightarrow> pyexc + int \<times> int" where
  "calculate_fit_size image_size display_size =
     (let (img_width, img_height) = image_size;
          (display_width, display_height) = display_size
      in bindE (py_truediv display_width img_width) (\<lambda>scale_x.
         bindE (py_truediv display_height img_height) (\<lambda>scale_y.
         let scale = min scale_x scale_y
         in bindE (scaled_dim img_width scale) (\<lambda>w.
            bindE (scaled_dim img_height scale) (\<lambda>h. Inr (w, h))))))"

text \<open>
  The fit size as the specification words it: the scale is the exact minimum of the two
  ratios and both products are floored.
\<close>

definition fit_size_spec :: "int \<times> int \<Rightarrow> int \<times> int \<Rightarrow> int \<times> int" where
  "fit_size_spec image_size display_size =
     (let (img_width, img_height) = image_size;
          (display_width, display_height) = display_size;
          s = min (of_int display_width / of_int img_width :: rat)
                  (of_int display_height / of_int img_height)
      in (\<lfloor>of_int img_width * s\<rfloor>, \<lfloor>of_int img_height * s\<rfloor>))"

section \<open>Colours: \<open>_parse_color\<close>\<close>

text \<open>
  \<open>float(c)\<close> on a string is the library's parser of float literals, which is not part
  of this program: it is a parameter \<open>fs\<close> of the model, giving for every string the
  float or the exception (ValueError for text that is no number). A colour is a tuple of
  integers, modelled as a list. A Python \<open>bool\<close> is an \<open>int\<close> (\<open>True == 1\<close>).
\<close>

type_synonym float_parser = "string \<Rightarrow> pyexc + pyfloat"

definition no_numeric_strings :: float_parser where
  "no_numeric_strings s = Inl ValueError"

definition color_component :: "float_parser \<Rightarrow> pyval \<Rightarrow> pyexc + int" where
  "color_component fs c =
     bindE (case c of
              PStr s \<Rightarrow> bindE (fs s) int_of_float
            | PFloat f \<Rightarrow> int_of_float f
            | PInt i \<Rightarrow> Inr i
            | PBool b \<Rightarrow> Inr (if b then 1 else 0)
            | _ \<Rightarrow> Inl ValueError)
       (\<lambda>v. if \<not> (0 \<le> v \<and> v \<le> 255) then Inl ValueError else Inr v)"

fun color_loop :: "float_parser \<Rightarrow> pyval list \<Rightarrow> int list \<Rightarrow> pyexc + int list" where
  "color_loop fs [] color_numeric = Inr color_numeric"
| "color_loop fs (c # cs) color_numeric =
     (case color_component fs c of
        Inl e \<Rightarrow> Inl e
      | Inr v \<Rightarrow> color_loop fs cs (color_numeric @ [v]))"

definition sequence3 :: "pyval \<Rightarrow> pyval list option" where
  "sequence3 v =
     (case v of
        PList xs \<Rightarrow> if length xs = 3 then Some xs else None
      | PTuple xs \<Rightarrow> if length xs = 3 then Some xs else None
      | _ \<Rightarrow> None)"

definition parse_color :: "float_parser \<Rightarrow> pyval \<Rightarrow> int list \<Rightarrow> pyexc + int list" where
  "parse_color fs color_value dflt =
     (case sequence3 color_value of
        Some xs \<Rightarrow>
          (case color_loop fs xs [] of
             Inr color_numeric \<Rightarrow> Inr color_numeric
           | Inl ValueError \<Rightarrow> Inr dflt
           | Inl TypeError \<Rightarrow> Inr dflt
           | Inl e \<Rightarrow> Inl e)
      | None \<Rightarrow> Inr dflt)"

text \<open>
  The colour rule in the specification's words, with the conversion of a float left open:
  an element counts when it is an integer, a finite float or a string that reads as a
  finite float, and its integer value lies in \<open>[0, 255]\<close>; three such elements give the
  colour, anything else the default. The specification converts by \<open>floor\<close>
  (\<open>parse_color_spec\<close>); \<open>int\<close> truncates toward zero.
\<close>

definition component_with :: "(rat \<Rightarrow> int) \<Rightarrow> float_parser \<Rightarrow> pyval \<Rightarrow> int option" where
  "component_with conv fs c =
     (let v = (case c of
                 PStr s \<Rightarrow> (case fs s of Inr (Finite q) \<Rightarrow> Some (conv q) | _ \<Rightarrow> None)
               | PFloat (Finite q) \<Rightarrow> Some (conv q)
               | PInt i \<Rightarrow> Some i
               | PBool b \<Rightarrow> Some (if b then 1 else 0)
               | _ \<Rightarrow> None)
      in case v of
           Some i \<Rightarrow> if 0 \<le> i \<and> i \<le> 255 then Some i else None
         | None \<Rightarrow> None)"

definition color_with ::
  "(rat \<Rightarrow> int) \<Rightarrow> float_parser \<Rightarrow> pyval \<Rightarrow> int list \<Rightarrow> int list" where
  "color_with conv fs color_value dflt =
     (case sequence3 color_value of
        Some xs \<Rightarrow>
          if list_all (\<lambda>c. component_with conv fs c \<noteq> None) xs
          then map (\<lambda>c. the (component_with conv fs c)) xs else dflt
      | None \<Rightarrow> dflt)"

definition parse_color_spec :: "float_parser \<Rightarrow> pyval \<Rightarrow> int list \<Rightarrow> int list" where
  "parse_color_spec fs color_value dflt = color_with floor fs color_value dflt"

text \<open>
  An element whose conversion raises what \<open>_parse_color\<close> does not catch: an infinite
  float, or a string that \<open>float\<close> reads as one (\<open>'inf'\<close>, \<open>'1e999'\<close>) or on which it
  raises anything but ValueError and TypeError.
\<close>

definition overflows :: "float_parser \<Rightarrow> pyval \<Rightarrow> bool" where
  "overflows fs c =
     (case c of
        PFloat f \<Rightarrow> f = PosInf \<or> f = NegInf
      | PStr s \<Rightarrow>
          (case fs s of
             Inr f \<Rightarrow> f = PosInf \<or> f = NegInf
           | Inl e \<Rightarrow> e \<noteq> ValueError \<and> e \<noteq> TypeError)
      | _ \<Rightarrow> False)"

definition color_elements :: "pyval \<Rightarrow> pyval list" where
  "color_elements color_value =
     (case sequence3 color_value of Some xs \<Rightarrow> xs | None \<Rightarrow> [])"

section \<open>Dictionary keys\<close>

text \<open>
  The two caches are dictionaries keyed by the entry's \<open>id\<close>, whatever value that is.
  Looking a key up hashes it first: a list or a dictionary is unhashable and raises
  TypeError, also when the dictionary is empty. Equal numbers are the same key
  (\<open>1 == 1.0 == True\<close>). A NaN key is found again only as the same object; the model
  identifies the NaN keys.
\<close>

datatype pykey = KNone | KNum rat | KInf bool | KNaN | KStr string | KTuple "pykey list"

fun sequenceE :: "(pyexc + 'a) list \<Rightarrow> pyexc + 'a list" where
  "sequenceE [] = Inr []"
| "sequenceE (m # ms) =
     (case m of
        Inl e \<Rightarrow> Inl e
      | Inr x \<Rightarrow> (case sequenceE ms of Inl e \<Rightarrow> Inl e | Inr xs \<Rightarrow> Inr (x # xs)))"

fun hash_key :: "pyval \<Rightarrow> pyexc + pykey" where
  "hash_key PNone = Inr KNone"
| "hash_key (PBool b) = Inr (KNum (if b then 1 else 0))"
| "hash_key (PInt i) = Inr (KNum (of_int i))"
| "hash_key (PFloat (Finite q)) = Inr (KNum q)"
| "hash_key (PFloat PosInf) = Inr (KInf True)"
| "hash_key (PFloat NegInf) = Inr (KInf False)"
| "hash_key (PFloat NaN) = Inr KNaN"
| "hash_key (PStr s) = Inr (KStr s)"
| "hash_key (PTuple xs) =
     (case sequenceE (map hash_key xs) of Inl e \<Rightarrow> Inl e | Inr ks \<Rightarrow> Inr (KTuple ks))"
| "hash_key (PList xs) = Inl TypeError"
| "hash_key (PDict d) = Inl TypeError"

section \<open>The plugin state\<close>

text \<open>
  A composited image is opaque here: the canvas that \<open>_load_and_scale_image\<close> built,
  named after the file it was built from.
  The entries are kept as the configuration gave them: \<open>x.get(...)\<close> on an entry that
  is not a dictionary raises AttributeError.
\<close>

datatype image = Composited string

record plugin =
  plugin_id :: string
  config :: pydict
  show_expired :: pyval
  background_color :: "int list"
  font_family :: pyval
  font_size :: pyval
  font_color :: "int list"
  name_font_size :: pyval
  name_font_color :: "int list"
  countdowns :: "pyval list"
  current_countdown_index :: nat
  last_rotation_time :: rat
  cached_images :: "pykey \<rightharpoonup> image"
  countdown_values :: "pykey \<rightharpoonup> countdown_result"

definition entry_get :: "pyval \<Rightarrow> string \<Rightarrow> pyval \<Rightarrow> pyexc + pyval" where
  "entry_get c k dflt =
     (case c of PDict d \<Rightarrow> Inr (dict_get d k dflt) | _ \<Rightarrow> Inl AttributeError)"

section \<open>Filtering and rotation\<close>

text \<open>\<open>_get_enabled_countdowns\<close>: the loop, with \<open>enabled\<close> the list built so far.\<close>

fun enabled_loop :: "plugin \<Rightarrow> pyval list \<Rightarrow> pyval list \<Rightarrow> pyexc + pyval list" where
  "enabled_loop s [] enabled = Inr enabled"
| "enabled_loop s (countdown # rest) enabled =
     bindE (entry_get countdown ''enabled'' (PBool True)) (\<lambda>en.
       if \<not> truthy en then enabled_loop s rest enabled
       else
         bindE (entry_get countdown ''id'' PNone) (\<lambda>countdown_id.
         bindE (hash_key countdown_id) (\<lambda>k.
           case countdown_values s k of
             Some r \<Rightarrow>
               if is_expired r \<and> \<not> truthy (show_expired s)
               then enabled_loop s rest enabled
               else enabled_loop s rest (enabled @ [countdown])
           | None \<Rightarrow> enabled_loop s rest (enabled @ [countdown]))))"

definition get_enabled_countdowns :: "plugin \<Rightarrow> pyexc + pyval list" where
  "get_enabled_countdowns s = enabled_loop s (countdowns s) []"

text \<open>\<open>_get_current_countdown\<close> returns the entry or None, and may reset the index.\<close>

definition get_current_countdown :: "plugin \<Rightarrow> pyexc + (pyval option \<times> plugin)" where
  "get_current_countdown s =
     bindE (get_enabled_countdowns s) (\<lambda>enabled.
       if enabled = [] then Inr (None, s)
       else
         let s' = (if current_countdown_index s \<ge> length enabled
                   then s\<lparr>current_countdown_index := 0\<rparr> else s)
         in Inr (Some (enabled ! current_countdown_index s'), s'))"

text \<open>\<open>_rotate_to_next_countdown\<close>; \<open>now\<close> is what \<open>time.time()\<close> returns there.\<close>

definition rotate_to_next_countdown :: "rat \<Rightarrow> plugin \<Rightarrow> pyexc + plugin" where
  "rotate_to_next_countdown now s =
     bindE (get_enabled_countdowns s) (\<lambda>enabled.
       if enabled = [] then Inr s
       else Inr (s\<lparr>current_countdown_index :=
                      (current_countdown_index s + 1) mod length enabled,
                    last_rotation_time := now\<rparr>))"

definition get_display_duration :: "plugin \<Rightarrow> pyval" where
  "get_display_duration s = dict_get (config s) ''display_duration'' (PFloat (Finite 15))"

text \<open>\<open>elapsed >= duration\<close>: a float against whatever the configuration holds.\<close>

fun float_ge :: "pyfloat \<Rightarrow> pyfloat \<Rightarrow> bool" where
  "float_ge NaN _ = False"
| "float_ge _ NaN = False"
| "float_ge PosInf _ = True"
| "float_ge _ NegInf = True"
| "float_ge NegInf _ = False"
| "float_ge _ PosInf = False"
| "float_ge (Finite a) (Finite b) = (b \<le> a)"

definition ge_value :: "pyfloat \<Rightarrow> pyval \<Rightarrow> pyexc + bool" where
  "ge_value x v =
     (case v of
        PInt i \<Rightarrow> Inr (float_ge x (Finite (of_int i)))
      | PBool b \<Rightarrow> Inr (float_ge x (Finite (if b then 1 else 0)))
      | PFloat f \<Rightarrow> Inr (float_ge x f)
      | _ \<Rightarrow> Inl TypeError)"

text \<open>
  \<open>is_cycle_complete\<close>: \<open>current_time\<close> is the clock read by the check, \<open>rotation_time\<close>
  the clock read again by the rotation. The result is the value returned or the
  exception raised, with the state the call leaves.
\<close>

definition is_cycle_complete :: "rat \<Rightarrow> rat \<Rightarrow> plugin \<Rightarrow> (pyexc + bool) \<times> plugin" where
  "is_cycle_complete current_time rotation_time s =
     (let elapsed = round_double (current_time - last_rotation_time s);
          duration = get_display_duration s
      in case ge_value elapsed duration of
           Inl e \<Rightarrow> (Inl e, s)
         | Inr True \<Rightarrow>
             (case rotate_to_next_countdown rotation_time s of
                Inl e \<Rightarrow> (Inl e, s)
              | Inr s' \<Rightarrow> (Inr True, s'))
         | Inr False \<Rightarrow> (Inr False, s))"


section \<open>Updating the results\<close>

text \<open>
  \<open>update\<close>: the loop runs inside \<open>try\<close>; an exception (an unhashable id, an entry
  that is no dictionary) ends the loop and is logged, the results stored so far remain.
\<close>

fun update_loop ::
  "date \<Rightarrow> pyval list \<Rightarrow> (pykey \<rightharpoonup> countdown_result) \<Rightarrow> (pykey \<rightharpoonup> countdown_result)"
where
  "update_loop today [] vals = vals"
| "update_loop today (countdown # rest) vals =
     (case entry_get countdown ''id'' PNone of
        Inl e \<Rightarrow> vals
      | Inr countdown_id \<Rightarrow>
     (case entry_get countdown ''target_date'' PNone of
        Inl e \<Rightarrow> vals
      | Inr target_date \<Rightarrow>
          if truthy countdown_id \<and> truthy target_date then
            (case hash_key countdown_id of
               Inl e \<Rightarrow> vals
             | Inr k \<Rightarrow>
                 update_loop today rest
                   (vals(k \<mapsto> calculate_time_remaining today target_date)))
          else update_loop today rest vals))"




section \<open>The host: display surface, fonts and image files\<close>

text \<open>
  The display manager, the font manager, the image library and the file system belong to
  the host. The model records what reaches the display as a list of calls, and takes from
  the host what each call answers: the matrix size, the font a request resolves to
  (\<open>None\<close> when the resolver returns nothing), the canvas \<open>_load_and_scale_image\<close>
  builds for a path (its own \<open>try\<close> turns a failure of the image library into
  \<open>None\<close>; resolving a path that is no string raises), and for every call on the
  display whether it raises.
\<close>

type_synonym font = nat

datatype canvas = Canvas int int "int list" "image option"

datatype call =
    Clear
  | SetImage canvas
  | DrawText pyval int int "font option"
  | UpdateDisplay

record host =
  matrix_size :: "pyexc + int \<times> int"
  font_manager :: "(string \<Rightarrow> pyval \<Rightarrow> pyval \<Rightarrow> int list option \<Rightarrow> pyexc + font option) option"
  load_and_scale_image :: "pyval \<Rightarrow> int \<Rightarrow> int \<Rightarrow> pyexc + image option"
  call_raises :: "call \<Rightarrow> pyexc option"

text \<open>
  The calls of a block run in order; the first one that raises ends the block, the
  calls made before it stay on the display.
\<close>

fun run_calls :: "host \<Rightarrow> call list \<Rightarrow> call list \<Rightarrow> pyexc option \<times> call list" where
  "run_calls h [] surface = (None, surface)"
| "run_calls h (c # cs) surface =
     (case call_raises h c of
        Some e \<Rightarrow> (Some e, surface)
      | None \<Rightarrow> run_calls h cs (surface @ [c]))"

text \<open>\<open>Image.new('RGB', (w, h), color)\<close> refuses a negative size.\<close>

definition image_new :: "int \<Rightarrow> int \<Rightarrow> int list \<Rightarrow> pyexc + canvas" where
  "image_new w h color =
     (if w < 0 \<or> h < 0 then Inl ValueError else Inr (Canvas w h color None))"

definition paste :: "canvas \<Rightarrow> image \<Rightarrow> canvas" where
  "paste cv img = (case cv of Canvas w h color _ \<Rightarrow> Canvas w h color (Some img))"

text \<open>
  Resolving a font inside \<open>try ... except Exception\<close>: no font manager, an exception
  or an empty answer all leave the text undrawn.
\<close>

definition try_resolve_font ::
  "host \<Rightarrow> string \<Rightarrow> pyval \<Rightarrow> pyval \<Rightarrow> font option" where
  "try_resolve_font h element_key family size_px =
     (case font_manager h of
        None \<Rightarrow> None
      | Some resolve_font \<Rightarrow>
          (case resolve_font element_key family size_px None of
             Inl e \<Rightarrow> None
           | Inr f \<Rightarrow> f))"

text \<open>The two fonts of a frame are resolved in one \<open>try\<close>: if either raises, both are None.\<close>

definition resolve_fonts :: "host \<Rightarrow> plugin \<Rightarrow> font option \<times> font option" where
  "resolve_fonts h s =
     (case font_manager h of
        None \<Rightarrow> (None, None)
      | Some resolve_font \<Rightarrow>
          (case resolve_font (plugin_id s @ ''.countdown_name'') (font_family s)
                  (name_font_size s) None of
             Inl e \<Rightarrow> (None, None)
           | Inr name_font \<Rightarrow>
               (case resolve_font (plugin_id s @ ''.countdown_value'') (font_family s)
                       (font_size s) None of
                  Inl e \<Rightarrow> (None, None)
                | Inr value_font \<Rightarrow> (name_font, value_font))))"

text \<open>The highlight font of a countdown that is due today; a failure keeps the value font.\<close>

definition today_font :: "host \<Rightarrow> plugin \<Rightarrow> font option \<Rightarrow> font option" where
  "today_font h s value_font =
     (case font_manager h of
        None \<Rightarrow> value_font
      | Some resolve_font \<Rightarrow>
          (case resolve_font (plugin_id s @ ''.countdown_value'') (font_family s)
                  (font_size s) (Some [255, 255, 0]) of
             Inl e \<Rightarrow> value_font
           | Inr f \<Rightarrow> f))"

section \<open>Rendering\<close>

text \<open>\<open>_display_no_countdowns\<close> and \<open>_display_error\<close>: each catches its own exceptions.\<close>

definition two_line_frame ::
  "host \<Rightarrow> int list \<Rightarrow> font option \<Rightarrow> string \<Rightarrow> string \<Rightarrow> call list \<Rightarrow> call list" where
  "two_line_frame h color font line1 line2 surface =
     (case matrix_size h of
        Inl e \<Rightarrow> surface
      | Inr (display_width, display_height) \<Rightarrow>
          (case image_new display_width display_height color of
             Inl e \<Rightarrow> surface
           | Inr img \<Rightarrow>
               snd (run_calls h
                 ([SetImage img]
                  @ (if font \<noteq> None
                     then [DrawText (PStr line1) (display_width div 2) (display_height div 3) font,
                           DrawText (PStr line2) (display_width div 2)
                             ((display_height * 2) div 3) font]
                     else [])
                  @ [UpdateDisplay])
                 surface)))"

definition display_no_countdowns :: "host \<Rightarrow> plugin \<Rightarrow> call list \<Rightarrow> call list" where
  "display_no_countdowns h s surface =
     two_line_frame h (background_color s)
       (try_resolve_font h (plugin_id s @ ''.countdown_name'') (font_family s) (name_font_size s))
       ''No Active'' ''Countdowns'' surface"

definition display_error :: "host \<Rightarrow> plugin \<Rightarrow> call list \<Rightarrow> call list" where
  "display_error h s surface =
     two_line_frame h [0, 0, 0]
       (try_resolve_font h (plugin_id s @ ''.error'') (PStr ''press_start'') (PInt 8))
       ''Countdown'' ''Error'' surface"

text \<open>
  The image of the active entry: the first element of its \<open>image\<close> list gives the path;
  the canvas is composited only when the cache has no image under the entry's id, and
  the cached canvas is what gets pasted.
\<close>

definition image_path_of :: "pyval \<Rightarrow> pyval" where
  "image_path_of countdown_image_list =
     (case countdown_image_list of
        PList (image_info # _) \<Rightarrow>
          (case image_info of PDict d \<Rightarrow> dict_get d ''path'' PNone | _ \<Rightarrow> PNone)
      | _ \<Rightarrow> PNone)"

definition cached_image_for ::
  "host \<Rightarrow> plugin \<Rightarrow> pyval \<Rightarrow> pyval \<Rightarrow> int \<Rightarrow> int \<Rightarrow> pyexc + (plugin \<times> image option)" where
  "cached_image_for h s countdown_id countdown_image_list image_width display_height =
     (let image_path = image_path_of countdown_image_list
      in if truthy image_path then
           bindE (hash_key countdown_id) (\<lambda>k.
           bindE (if cached_images s k = None
                  then bindE (load_and_scale_image h image_path image_width display_height)
                         (\<lambda>loaded_img.
                            case loaded_img of
                              Some img \<Rightarrow> Inr (s\<lparr>cached_images := (cached_images s)(k \<mapsto> img)\<rparr>)
                            | None \<Rightarrow> Inr s)
                  else Inr s) (\<lambda>s'.
           Inr (s', cached_images s' k)))
         else Inr (s, None))"

text \<open>The text and the highlight of the active entry, with the placeholder as default.\<close>

definition value_of_entry :: "plugin \<Rightarrow> pykey \<Rightarrow> string \<times> bool" where
  "value_of_entry s k =
     (case countdown_values s k of
        None \<Rightarrow> (''---'', False)
      | Some r \<Rightarrow> (text_str r, is_today r))"

text \<open>
  The body of \<open>display\<close> inside \<open>try\<close>: what it raised if it did, the state and the
  display it leaves.
\<close>

definition display_frame ::
  "host \<Rightarrow> plugin \<Rightarrow> pyval \<Rightarrow> bool \<Rightarrow> call list \<Rightarrow> pyexc option \<times> plugin \<times> call list" where
  "display_frame h s current_countdown force_clear surface =
     (case matrix_size h of
        Inl e \<Rightarrow> (Some e, s, surface)
      | Inr (display_width, display_height) \<Rightarrow>
     (let image_width = display_width div 3;
          text_width = display_width - image_width
      in case image_new display_width display_height (background_color s) of
        Inl e \<Rightarrow> (Some e, s, surface)
      | Inr canvas \<Rightarrow>
     (case bindE (entry_get current_countdown ''id'' PNone) (\<lambda>countdown_id.
           bindE (entry_get current_countdown ''name'' (PStr ''Countdown'')) (\<lambda>countdown_name.
           bindE (entry_get current_countdown ''image'' (PList [])) (\<lambda>countdown_image_list.
           bindE (cached_image_for h s countdown_id countdown_image_list image_width
                    display_height) (\<lambda>(s', pasted).
           bindE (hash_key countdown_id) (\<lambda>k.
             Inr (s', pasted, countdown_name, value_of_entry s' k)))))) of
        Inl e \<Rightarrow> (Some e, s, surface)
      | Inr (s', pasted, countdown_name, countdown_text, today) \<Rightarrow>
          (let canvas' = (case pasted of Some img \<Rightarrow> paste canvas img | None \<Rightarrow> canvas);
               (name_font, value_font) = resolve_fonts h s';
               text_center_x = image_width + text_width div 2;
               name_y = display_height div 3;
               value_y = (display_height * 2) div 3;
               (e, surface') =
                 run_calls h
                   ((if force_clear then [Clear] else [])
                    @ [SetImage canvas']
                    @ (if name_font \<noteq> None
                       then [DrawText countdown_name text_center_x name_y name_font] else [])
                    @ (if value_font \<noteq> None
                       then [DrawText (PStr countdown_text) text_center_x value_y
                               (if today then today_font h s' value_font else value_font)]
                       else [])
                    @ [UpdateDisplay])
                   surface
           in (e, s', surface')))))"

text \<open>
  \<open>display\<close>: the active entry is chosen before the \<open>try\<close>, so an exception of the
  filter leaves \<open>display\<close>; an exception of the body is caught and the error frame is
  drawn. The result is the exception that left \<open>display\<close>, if any, with the state and
  the display.
\<close>

definition display ::
  "host \<Rightarrow> bool \<Rightarrow> plugin \<Rightarrow> call list \<Rightarrow> pyexc option \<times> plugin \<times> call list" where
  "display h force_clear s surface =
     (case get_current_countdown s of
        Inl e \<Rightarrow> (Some e, s, surface)
      | Inr (current_countdown, s1) \<Rightarrow>
          (case current_countdown of
             None \<Rightarrow> (None, s1, display_no_countdowns h s1 surface)
           | Some c \<Rightarrow>
               if \<not> truthy c then (None, s1, display_no_countdowns h s1 surface)
               else
                 (case display_frame h s1 c force_clear surface of
                    (None, s2, surface') \<Rightarrow> (None, s2, surface')
                  | (Some e, s2, surface') \<Rightarrow> (None, s2, display_error h s2 surface'))))"


section \<open>Loading the configuration\<close>

text \<open>
  \<open>self.countdowns.sort(key=lambda x: x.get('display_order', 0))\<close>. The keys are
  computed first (AttributeError for an entry that is no dictionary); a list of at most
  one entry needs no comparison. Keys that are numbers are ordered by value, entries with
  equal keys keeping their order. The model covers number keys, which is what the
  entry schema allows; it reports TypeError for any other key among two or more entries,
  which is what Python raises when a number meets a string, a list or None (strings
  among themselves, which Python would order, are outside the model).
\<close>

definition sort_number :: "pyval \<Rightarrow> pyfloat option" where
  "sort_number v =
     (case v of
        PInt i \<Rightarrow> Some (Finite (of_int i))
      | PBool b \<Rightarrow> Some (Finite (if b then 1 else 0))
      | PFloat f \<Rightarrow> (if f = NaN then None else Some f)
      | _ \<Rightarrow> None)"

fun insort_entry :: "pyfloat \<times> pyval \<Rightarrow> (pyfloat \<times> pyval) list \<Rightarrow> (pyfloat \<times> pyval) list" where
  "insort_entry x [] = [x]"
| "insort_entry x (y # ys) =
     (if float_ge (fst y) (fst x) \<and> fst y \<noteq> fst x then x # y # ys
      else y # insort_entry x ys)"

definition sort_countdowns :: "pyval list \<Rightarrow> pyexc + pyval list" where
  "sort_countdowns xs =
     bindE (sequenceE (map (\<lambda>x. entry_get x ''display_order'' (PInt 0)) xs)) (\<lambda>keys.
       if length xs \<le> 1 then Inr xs
       else if list_all (\<lambda>k. sort_number k \<noteq> None) keys
       then Inr (map snd (foldl (\<lambda>acc x. insort_entry x acc) []
                            (zip (map (\<lambda>k. the (sort_number k)) keys) xs)))
       else Inl TypeError)"

definition load_countdowns :: "pydict \<Rightarrow> pyval list" where
  "load_countdowns cfg =
     (case dict_get cfg ''countdowns'' (PList []) of PList xs \<Rightarrow> xs | _ \<Rightarrow> [])"

definition color_list :: "int list \<Rightarrow> pyval" where
  "color_list xs = PList (map PInt xs)"

text \<open>
  The constructor: \<open>now\<close> is the clock. It raises when a colour or the sort raises, and
  then there is no plugin.
\<close>

definition init :: "float_parser \<Rightarrow> string \<Rightarrow> pydict \<Rightarrow> rat \<Rightarrow> pyexc + plugin" where
  "init fs pid cfg now =
     bindE (parse_color fs (dict_get cfg ''background_color'' (color_list [0, 0, 0]))
              [0, 0, 0]) (\<lambda>bg.
     bindE (parse_color fs (dict_get cfg ''font_color'' (color_list [255, 255, 255]))
              [255, 255, 255]) (\<lambda>fc.
     bindE (parse_color fs (dict_get cfg ''name_font_color'' (color_list [200, 200, 200]))
              [200, 200, 200]) (\<lambda>nfc.
     bindE (sort_countdowns (load_countdowns cfg)) (\<lambda>sorted_list.
       Inr \<lparr>plugin_id = pid,
            config = cfg,
            show_expired = dict_get cfg ''show_expired'' (PBool False),
            background_color = bg,
            font_family = dict_get cfg ''font_family'' (PStr ''press_start''),
            font_size = dict_get cfg ''font_size'' (PInt 8),
            font_color = fc,
            name_font_size = dict_get cfg ''name_font_size'' (PInt 8),
            name_font_color = nfc,
            countdowns = sorted_list,
            current_countdown_index = 0,
            last_rotation_time = now,
            cached_images = Map.empty,
            countdown_values = Map.empty\<rparr>))))"


text \<open>The identifiers of the configured entries, as cache keys.\<close>

definition entry_keys :: "plugin \<Rightarrow> pykey set" where
  "entry_keys s =
     {k. \<exists>c \<in> set (countdowns s). \<exists>d. c = PDict d \<and> hash_key (dict_get d ''id'' PNone) = Inr k}"


section \<open>Words of the specification about entries\<close>

text \<open>
  An entry is enabled when its \<open>enabled\<close> field is true (true when absent); it is
  expired when the results cache holds a result under its id that says so; it is
  well formed when it is a dictionary whose id can be a dictionary key.
\<close>

definition entry_enabled :: "pyval \<Rightarrow> bool" where
  "entry_enabled c =
     (case c of PDict d \<Rightarrow> truthy (dict_get d ''enabled'' (PBool True)) | _ \<Rightarrow> False)"

definition entry_key :: "pyval \<Rightarrow> pykey option" where
  "entry_key c =
     (case c of
        PDict d \<Rightarrow> (case hash_key (dict_get d ''id'' PNone) of Inr k \<Rightarrow> Some k | Inl e \<Rightarrow> None)
      | _ \<Rightarrow> None)"

definition entry_expired :: "plugin \<Rightarrow> pyval \<Rightarrow> bool" where
  "entry_expired s c =
     (case entry_key c of
        Some k \<Rightarrow> (case countdown_values s k of Some r \<Rightarrow> is_expired r | None \<Rightarrow> False)
      | None \<Rightarrow> False)"

definition entry_ok :: "pyval \<Rightarrow> bool" where
  "entry_ok c = (entry_key c \<noteq> None)"

definition entry_shown :: "plugin \<Rightarrow> pyval \<Rightarrow> bool" where
  "entry_shown s c =
     (entry_enabled c \<and> (\<not> entry_expired s c \<or> truthy (show_expired s)))"

section \<open>Words of the specification about frames\<close>

text \<open>
  The two-line message frames: a blank canvas of the display's size and two lines of text,
  centred at a third and at two thirds of the height, then presented.
\<close>

definition two_lines :: "int \<Rightarrow> int \<Rightarrow> int list \<Rightarrow> font \<Rightarrow> string \<Rightarrow> string \<Rightarrow> call list" where
  "two_lines w h color f line1 line2 =
     [SetImage (Canvas w h color None),
      DrawText (PStr line1) (w div 2) (h div 3) (Some f),
      DrawText (PStr line2) (w div 2) ((h * 2) div 3) (Some f),
      UpdateDisplay]"

text \<open>A display surface of the given size on which no call raises.\<close>

definition surface_works :: "host \<Rightarrow> int \<Rightarrow> int \<Rightarrow> bool" where
  "surface_works h w ht =
     (matrix_size h = Inr (w, ht) \<and> 0 \<le> w \<and> 0 \<le> ht \<and> (\<forall>c. call_raises h c = None))"


section \<open>The image cache and the configured entries\<close>



section \<open>Sample configurations\<close>

text \<open>Concrete entries, states and hosts on which the theorems below are evaluated.\<close>

definition entry_a :: pyval where
  "entry_a = PDict [(''id'', PStr ''a''), (''name'', PStr ''A''),
                    (''target_date'', PStr ''2030-01-01''),
                    (''image'', PList [PDict [(''path'', PStr ''a.png'')]])]"

definition entry_b :: pyval where
  "entry_b = PDict [(''id'', PStr ''b''), (''name'', PStr ''B''),
                    (''target_date'', PStr ''2020-01-01''), (''enabled'', PBool True)]"


definition plugin_with :: "pyval list \<Rightarrow> plugin" where
  "plugin_with entries =
     \<lparr>plugin_id = ''countdown'',
      config = [(''countdowns'', PList entries)],
      show_expired = PBool False,
      background_color = [0, 0, 0],
      font_family = PStr ''press_start'',
      font_size = PInt 8,
      font_color = [255, 255, 255],
      name_font_size = PInt 8,
      name_font_color = [200, 200, 200],
      countdowns = entries,
      current_countdown_index = 0,
      last_rotation_time = 100,
      cached_images = Map.empty,
      countdown_values = Map.empty\<rparr>"


definition entry_bad_id :: pyval where
  "entry_bad_id = PDict [(''id'', PList [PStr ''a'']), (''name'', PStr ''A''),
                         (''target_date'', PStr ''2030-01-01'')]"

definition any_font :: "string \<Rightarrow> pyval \<Rightarrow> pyval \<Rightarrow> int list option \<Rightarrow> pyexc + font option" where
  "any_font element_key family size_px color = Inr (Some 1)"

definition sample_host :: host where
  "sample_host =
     \<lparr>matrix_size = Inr (64, 32),
      font_manager = Some any_font,
      load_and_scale_image =
        (\<lambda>path w h. case path of PStr p \<Rightarrow> Inr (Some (Composited p)) | _ \<Rightarrow> Inr None),
      call_raises = (\<lambda>c. None)\<rparr>"

definition host_failing_load :: host where
  "host_failing_load = sample_host\<lparr>load_and_scale_image := (\<lambda>path w h. Inl TypeError)\<rparr>"

definition host_without_fonts :: host where
  "host_without_fonts = host_failing_load\<lparr>font_manager := None\<rparr>"





section \<open>The calendar: ordinals follow the calendar order\<close>

lemma div_step:
  fixes y k :: int
  assumes k: "0 < k"
  shows "y div k = (y - 1) div k + (if y mod k = 0 then 1 else 0)"
proof (cases "y mod k = 0")
  case True
  have "y = k * (y div k)" using True by auto
  then have "y - 1 = k * (y div k - 1) + (k - 1)" by (simp add: algebra_simps)
  then have "(y - 1) div k = y div k - 1"
    by (rule int_div_pos_eq) (use k in auto)
  with True show ?thesis by simp
next
  case False
  have "0 \<le> y mod k" "y mod k < k" using k by auto
  with False have r: "0 \<le> y mod k - 1" "y mod k - 1 < k" by auto
  have "y - 1 = k * (y div k) + (y mod k - 1)" by simp
  then have "(y - 1) div k = y div k"
    using r by (rule int_div_pos_eq)
  with False show ?thesis by simp
qed

lemma mod_chain:
  fixes y a b :: int
  assumes "a dvd b" "y mod b = 0"
  shows "y mod a = 0"
proof -
  from assms(2) have "b dvd y" by (simp add: dvd_eq_mod_eq_0)
  with assms(1) have "a dvd y" by (rule dvd_trans)
  then show ?thesis by simp
qed

lemma leap_count:
  fixes p4 p100 p400 :: bool
  assumes "p400 \<Longrightarrow> p100" "p100 \<Longrightarrow> p4"
  shows "(if p4 then 1 else 0) - (if p100 then 1 else 0) + (if p400 then 1 else 0)
         = (if p4 \<and> (\<not> p100 \<or> p400) then (1::int) else 0)"
  using assms by (cases p4; cases p100; cases p400) simp_all

lemma dby_step: "days_before_year (y + 1) = days_before_year y + (if is_leap y then 366 else 365)"
proof -
  define A B C where "A = (y - 1) div 4" and "B = (y - 1) div 100" and "C = (y - 1) div 400"
  define a b c :: int where "a = (if y mod 4 = 0 then 1 else 0)"
    and "b = (if y mod 100 = 0 then 1 else 0)" and "c = (if y mod 400 = 0 then 1 else 0)"
  have d4: "y div 4 = A + a" unfolding A_def a_def by (rule div_step) simp
  have d100: "y div 100 = B + b" unfolding B_def b_def by (rule div_step) simp
  have d400: "y div 400 = C + c" unfolding C_def c_def by (rule div_step) simp
  have e1: "days_before_year (y + 1) = y * 365 + y div 4 - y div 100 + y div 400"
    by (simp only: days_before_year_def add_diff_cancel_right')
  have e2: "days_before_year y = (y - 1) * 365 + A - B + C"
    by (simp only: days_before_year_def A_def B_def C_def)
  have e3: "days_before_year (y + 1) = days_before_year y + 365 + (a - b + c)"
    unfolding e1 e2 d4 d100 d400 by (simp add: algebra_simps)
  have m1: "y mod 400 = 0 \<Longrightarrow> y mod 100 = 0" by (rule mod_chain [of 100 400]) simp_all
  have m2: "y mod 100 = 0 \<Longrightarrow> y mod 4 = 0" by (rule mod_chain [of 4 100]) simp_all
  have e4: "a - b + c = (if is_leap y then 1 else 0)"
    unfolding a_def b_def c_def is_leap_def using m1 m2 by (rule leap_count)
  show ?thesis unfolding e3 e4 by (cases "is_leap y") simp_all
qed
lemma year_length_pos: "0 < (if is_leap y then 366 else (365::int))"
  by simp

lemma dby_mono_aux: "y \<le> y' \<Longrightarrow> days_before_year y \<le> days_before_year y'"
proof (induction y' rule: int_ge_induct)
  case base
  show ?case by simp
next
  case (step i)
  have "days_before_year i \<le> days_before_year (i + 1)"
    unfolding dby_step by (cases "is_leap i") simp_all
  with step show ?case by simp
qed

lemma dby_next_year: "y < y' \<Longrightarrow> days_before_year y + (if is_leap y then 366 else 365) \<le> days_before_year y'"
  using dby_mono_aux [of "y + 1" y'] by (simp add: dby_step)

lemma dim_pos: "28 \<le> days_in_month y m"
  unfolding days_in_month_def by simp

lemma dbm_step: "1 \<le> m \<Longrightarrow> m < 12 \<Longrightarrow> days_before_month y (m + 1) = days_before_month y m + days_in_month y m"
proof -
  assume "1 \<le> m" "m < 12"
  then have "m = 1 \<or> m = 2 \<or> m = 3 \<or> m = 4 \<or> m = 5 \<or> m = 6 \<or> m = 7 \<or> m = 8 \<or> m = 9 \<or> m = 10 \<or> m = 11" by arith
  then show ?thesis
    unfolding days_before_month_def days_in_month_def by (elim disjE) simp_all
qed

lemma dbm_last: "days_before_month y 12 + days_in_month y 12 = (if is_leap y then 366 else 365)"
  unfolding days_before_month_def days_in_month_def by simp

lemma dbm_mono_aux: "m \<le> m' \<Longrightarrow> 1 \<le> m \<Longrightarrow> m' \<le> 12 \<Longrightarrow> days_before_month y m \<le> days_before_month y m'"
proof (induction m' rule: int_ge_induct)
  case base
  show ?case by simp
next
  case (step i)
  from step have "days_before_month y (i + 1) = days_before_month y i + days_in_month y i"
    by (intro dbm_step) auto
  moreover have "28 \<le> days_in_month y i" by (rule dim_pos)
  ultimately show ?case using step by simp
qed

lemma dbm_mono: "1 \<le> m \<Longrightarrow> m \<le> m' \<Longrightarrow> m' \<le> 12 \<Longrightarrow> days_before_month y m \<le> days_before_month y m'"
  by (rule dbm_mono_aux)

lemma dbm_next_month:
  assumes "1 \<le> m" "m < m'" "m' \<le> 12"
  shows "days_before_month y m + days_in_month y m \<le> days_before_month y m'"
proof -
  have "days_before_month y (m + 1) = days_before_month y m + days_in_month y m"
    using assms by (intro dbm_step) auto
  moreover have "days_before_month y (m + 1) \<le> days_before_month y m'"
    using assms by (intro dbm_mono) auto
  ultimately show ?thesis by simp
qed

lemma dbm_nonneg: "1 \<le> m \<Longrightarrow> m \<le> 12 \<Longrightarrow> 0 \<le> days_before_month y m"
  using dbm_mono [of 1 m y] by (simp add: days_before_month_def)

lemma dbm_in_year:
  assumes "1 \<le> m" "m \<le> 12"
  shows "days_before_month y m + days_in_month y m \<le> (if is_leap y then 366 else 365)"
proof (cases "m = 12")
  case True
  then show ?thesis using dbm_last [of y] by simp
next
  case False
  then have "days_before_month y m + days_in_month y m \<le> days_before_month y 12"
    using assms by (intro dbm_next_month) auto
  moreover have "0 < days_in_month y 12" using dim_pos [of y 12] by simp
  ultimately show ?thesis using dbm_last [of y] by linarith
qed

lemma toordinal_mono:
  assumes a: "valid_date a" and b: "valid_date b" and lt: "date_less a b"
  shows "toordinal a < toordinal b"
proof -
  from a have ma: "1 \<le> month a" "month a \<le> 12" and da: "1 \<le> day a" "day a \<le> days_in_month (year a) (month a)"
    by (simp_all add: valid_date_def)
  from b have mb: "1 \<le> month b" "month b \<le> 12" and db: "1 \<le> day b"
    by (simp_all add: valid_date_def)
  consider (y) "year a < year b"
    | (m) "year a = year b" "month a < month b"
    | (d) "year a = year b" "month a = month b" "day a < day b"
    using lt unfolding date_less_def by blast
  then show ?thesis
  proof cases
    case y
    have "days_before_month (year a) (month a) + day a \<le> (if is_leap (year a) then 366 else 365)"
      using dbm_in_year [OF ma, of "year a"] da by linarith
    moreover have "days_before_year (year a) + (if is_leap (year a) then 366 else 365) \<le> days_before_year (year b)"
      using y by (rule dby_next_year)
    moreover have "0 \<le> days_before_month (year b) (month b)" using mb by (rule dbm_nonneg)
    ultimately show ?thesis unfolding toordinal_def using db by linarith
  next
    case m
    have "days_before_month (year a) (month a) + days_in_month (year a) (month a) \<le> days_before_month (year a) (month b)"
      using ma(1) m(2) mb(2) by (rule dbm_next_month)
    then show ?thesis unfolding toordinal_def using m(1) da db by simp
  next
    case d
    then show ?thesis unfolding toordinal_def by simp
  qed
qed

lemma date_trichotomy: "a = b \<or> date_less a b \<or> date_less b (a::date)"
  unfolding date_less_def by (cases a; cases b) auto

lemma toordinal_less_iff:
  assumes "valid_date a" "valid_date b"
  shows "toordinal a < toordinal b \<longleftrightarrow> date_less a b"
  using toordinal_mono [OF assms] toordinal_mono [OF assms(2) assms(1)] date_trichotomy [of a b]
  by auto

lemma toordinal_eq_iff:
  assumes "valid_date a" "valid_date b"
  shows "toordinal a = toordinal b \<longleftrightarrow> a = b"
  using toordinal_mono [OF assms] toordinal_mono [OF assms(2) assms(1)] date_trichotomy [of a b]
  by auto

lemma strptime_ymd_valid: "strptime_ymd v = Inr d \<Longrightarrow> valid_date d"
  by (auto simp: strptime_ymd_def make_date_def Let_def
      split: pyval.splits option.splits prod.splits if_splits)

section \<open>Rounding: the binade and evaluation at a number\<close>

lemma pow2_power_int: "pow2 d = power_int 2 d"
  by (simp add: pow2_def power_int_def inverse_eq_divide power_one_over [symmetric] del: power_one_over)

lemma pow2_pos: "0 < pow2 d"
  by (simp add: pow2_power_int)

lemma pow2_add: "pow2 (a + b) = pow2 a * pow2 b"
  by (simp add: pow2_power_int power_int_add)

lemma pow2_diff: "pow2 (a - b) = pow2 a / pow2 b"
  by (simp add: pow2_power_int power_int_diff)

lemma pow2_less: "a < b \<Longrightarrow> pow2 a < pow2 b"
  by (simp add: pow2_power_int power_int_strict_increasing)

lemma pow2_le: "a \<le> b \<Longrightarrow> pow2 a \<le> pow2 b"
  by (simp add: pow2_power_int power_int_increasing)

lemma pow2_nat: "0 \<le> d \<Longrightarrow> pow2 d = 2 ^ nat d"
  by (simp add: pow2_def)

lemma bitlen_rat_bounds:
  assumes "0 < a"
  shows "pow2 (bitlen a - 1) \<le> rat_of_int a" and "rat_of_int a < pow2 (bitlen a)"
proof -
  from assms have b: "2 ^ nat (bitlen a - 1) \<le> a" "a < 2 ^ nat (bitlen a)"
    using bitlen_bounds [of a] by simp_all
  have ge1: "1 \<le> bitlen a" using assms by (simp add: bitlen_alt_def)
  have "rat_of_int (2 ^ nat (bitlen a - 1)) \<le> rat_of_int a"
    using b(1) by (simp only: of_int_le_iff)
  then show "pow2 (bitlen a - 1) \<le> rat_of_int a"
    using ge1 by (simp add: pow2_nat)
  have "rat_of_int a < rat_of_int (2 ^ nat (bitlen a))"
    using b(2) by (simp only: of_int_less_iff)
  then show "rat_of_int a < pow2 (bitlen a)"
    using ge1 by (simp add: pow2_nat)
qed

lemma binade_bounds:
  assumes "x \<noteq> 0"
  shows "pow2 (binade x) \<le> \<bar>x\<bar>" and "\<bar>x\<bar> < pow2 (binade x + 1)"
proof -
  obtain a b where q: "quotient_of \<bar>x\<bar> = (a, b)" by (cases "quotient_of \<bar>x\<bar>")
  have bpos: "0 < b" using q by (rule quotient_of_denom_pos)
  have xe: "\<bar>x\<bar> = of_int a / of_int b" using q by (rule quotient_of_div)
  have xpos: "0 < \<bar>x\<bar>" using assms by simp
  have apos: "0 < a"
    using xpos bpos unfolding xe by (simp add: zero_less_divide_iff)
  define d where "d = bitlen a - bitlen b"
  have bin: "binade x = (if pow2 d \<le> \<bar>x\<bar> then d else d - 1)"
    by (simp add: binade_def q d_def Let_def)
  have up: "\<bar>x\<bar> < pow2 (d + 1)"
  proof -
    have "of_int a < pow2 (bitlen a)" using apos by (rule bitlen_rat_bounds)
    moreover have "pow2 (bitlen b - 1) \<le> of_int b" using bpos by (rule bitlen_rat_bounds)
    ultimately have "of_int a * pow2 (bitlen b - 1) < pow2 (bitlen a) * of_int b"
      using bpos apos pow2_pos [of "bitlen b - 1"]
      by (intro mult_less_le_imp_less) (auto simp: less_imp_le)
    then have "of_int a / of_int b < pow2 (bitlen a) / pow2 (bitlen b - 1)"
      using bpos pow2_pos [of "bitlen b - 1"] by (simp add: field_simps)
    also have "\<dots> = pow2 (d + 1)"
      unfolding d_def pow2_diff [symmetric] by (simp add: algebra_simps)
    finally show ?thesis unfolding xe .
  qed
  have lo: "pow2 (d - 1) < \<bar>x\<bar>"
  proof -
    have "pow2 (bitlen a - 1) \<le> of_int a" using apos by (rule bitlen_rat_bounds)
    moreover have "of_int b < pow2 (bitlen b)" using bpos by (rule bitlen_rat_bounds)
    ultimately have "pow2 (bitlen a - 1) * of_int b < of_int a * pow2 (bitlen b)"
      using bpos apos pow2_pos [of "bitlen a - 1"]
      by (intro mult_le_less_imp_less) (auto simp: less_imp_le)
    then have "pow2 (bitlen a - 1) / pow2 (bitlen b) < of_int a / of_int b"
      using bpos pow2_pos [of "bitlen b"] by (simp add: field_simps)
    moreover have "pow2 (bitlen a - 1) / pow2 (bitlen b) = pow2 (d - 1)"
      unfolding d_def pow2_diff [symmetric] by (simp add: algebra_simps)
    ultimately show ?thesis unfolding xe by simp
  qed
  show "pow2 (binade x) \<le> \<bar>x\<bar>" unfolding bin using lo by (simp add: less_imp_le)
  show "\<bar>x\<bar> < pow2 (binade x + 1)" unfolding bin using up by (simp add: not_le)
qed

lemma binade_eqI:
  assumes "pow2 e \<le> \<bar>x\<bar>" and "\<bar>x\<bar> < pow2 (e + 1)"
  shows "binade x = e"
proof -
  have x: "x \<noteq> 0" using assms(1) pow2_pos [of e] by auto
  note b = binade_bounds [OF x]
  have "e < binade x + 1"
  proof (rule ccontr)
    assume "\<not> e < binade x + 1"
    then have "pow2 (binade x + 1) \<le> pow2 e" by (intro pow2_le) simp
    with b(2) assms(1) show False by simp
  qed
  moreover have "binade x < e + 1"
  proof (rule ccontr)
    assume "\<not> binade x < e + 1"
    then have "pow2 (e + 1) \<le> pow2 (binade x)" by (intro pow2_le) simp
    with b(1) assms(2) show False by simp
  qed
  ultimately show ?thesis by simp
qed

lemma floor_rat_numeral:
  "\<lfloor>numeral a / numeral b :: rat\<rfloor> = numeral a div numeral b"
  using floor_divide_of_int_eq [of "numeral a" "numeral b", where ?'a = rat] by simp

lemma round_double_eval:
  assumes "pow2 e \<le> \<bar>x\<bar>" and "\<bar>x\<bar> < pow2 (e + 1)" and "- 1022 \<le> e"
    and "y = of_int (round_half_even (x / pow2 (e - 52))) * pow2 (e - 52)"
    and "\<bar>y\<bar> < pow2 1024"
  shows "round_double x = Finite y"
proof -
  have x: "x \<noteq> 0" using assms(1) pow2_pos [of e] by auto
  have b: "binade x = e" using assms(1,2) by (rule binade_eqI)
  have m: "max e (- 1022) = e" using assms(3) by simp
  show ?thesis
    using assms(5) by (simp add: round_double_def x b m Let_def assms(4) [symmetric] not_le)
qed

section \<open>The countdown calculation on well-formed dates\<close>

lemma parse_sample_1:
  "strptime_ymd (PStr ''2024-02-27'') = Inr \<lparr>year = 2024, month = 2, day = 27\<rparr>"
  by code_simp

lemma parse_sample_2:
  "strptime_ymd (PStr ''2024-03-01'') = Inr \<lparr>year = 2024, month = 3, day = 1\<rparr>"
  by code_simp

lemma parse_sample_3:
  "strptime_ymd (PStr ''2024-3-2'') = Inr \<lparr>year = 2024, month = 3, day = 2\<rparr>"
  by code_simp

lemma parse_sample_4:
  "strptime_ymd (PStr ''2025-03-01'') = Inr \<lparr>year = 2025, month = 3, day = 1\<rparr>"
  by code_simp

lemma today_sample: "valid_date \<lparr>year = 2024, month = 3, day = 1\<rparr>"
  by code_simp

lemma delta_samples:
  "date_sub_days \<lparr>year = 2024, month = 2, day = 27\<rparr> \<lparr>year = 2024, month = 3, day = 1\<rparr> = - 3"
  "date_sub_days \<lparr>year = 2024, month = 3, day = 1\<rparr> \<lparr>year = 2024, month = 3, day = 1\<rparr> = 0"
  "date_sub_days \<lparr>year = 2024, month = 3, day = 2\<rparr> \<lparr>year = 2024, month = 3, day = 1\<rparr> = 1"
  "date_sub_days \<lparr>year = 2025, month = 3, day = 1\<rparr> \<lparr>year = 2024, month = 3, day = 1\<rparr> = 365"
  by code_simp+

lemma str_samples: "py_str_int 3 = ''3''" "py_str_int 365 = ''365''"
  by code_simp+

text \<open>
  Claim C1. Let the target date string parse to the calendar date \<open>d\<close>, let today \<open>t\<close>
  be a valid calendar date, and let \<open>delta = d - t\<close> in whole days. If \<open>delta < 0\<close> the
  result is expired, not today, has \<open>days = |delta|\<close> and the label \<open>"{days}d ago"\<close>;
  if \<open>delta = 0\<close> it is today, not expired, has \<open>days = 0\<close> and the label
  \<open>"TODAY!"\<close>; if \<open>delta = 1\<close> the label is \<open>"1 Day"\<close> with \<open>days = 1\<close> and both
  flags false; if \<open>delta > 1\<close> the label is \<open>"{delta} Days"\<close> with \<open>days = delta\<close> and
  both flags false. Moreover the result is expired exactly when \<open>d\<close> is before \<open>t\<close> in
  the calendar, and is today exactly when \<open>d = t\<close>.
\<close>

theorem calculate_time_remaining_rules:
  assumes p: "strptime_ymd (PStr s) = Inr d" and t: "valid_date t"
  shows "(date_sub_days d t < 0 \<longrightarrow>
            calculate_time_remaining t (PStr s) =
              \<lparr>days = \<bar>date_sub_days d t\<bar>, hours = 0, minutes = 0, is_expired = True,
               is_today = False, text_str = py_str_int \<bar>date_sub_days d t\<bar> @ ''d ago''\<rparr>)
       \<and> (date_sub_days d t = 0 \<longrightarrow>
            calculate_time_remaining t (PStr s) =
              \<lparr>days = 0, hours = 0, minutes = 0, is_expired = False,
               is_today = True, text_str = ''TODAY!''\<rparr>)
       \<and> (date_sub_days d t = 1 \<longrightarrow>
            calculate_time_remaining t (PStr s) =
              \<lparr>days = 1, hours = 0, minutes = 0, is_expired = False,
               is_today = False, text_str = ''1 Day''\<rparr>)
       \<and> (1 < date_sub_days d t \<longrightarrow>
            calculate_time_remaining t (PStr s) =
              \<lparr>days = date_sub_days d t, hours = 0, minutes = 0, is_expired = False,
               is_today = False, text_str = py_str_int (date_sub_days d t) @ '' Days''\<rparr>)
       \<and> (is_expired (calculate_time_remaining t (PStr s)) \<longleftrightarrow> date_less d t)
       \<and> (is_today (calculate_time_remaining t (PStr s)) \<longleftrightarrow> d = t)"
proof -
  have d: "valid_date d" using p by (rule strptime_ymd_valid)
  have lt: "date_sub_days d t < 0 \<longleftrightarrow> date_less d t"
    unfolding date_sub_days_def using toordinal_less_iff [OF d t] by simp
  have eq: "date_sub_days d t = 0 \<longleftrightarrow> d = t"
    unfolding date_sub_days_def using toordinal_eq_iff [OF d t] by simp
  have expired: "is_expired (calculate_time_remaining t (PStr s)) \<longleftrightarrow> date_sub_days d t < 0"
    by (simp add: calculate_time_remaining_def p Let_def)
  have today: "is_today (calculate_time_remaining t (PStr s)) \<longleftrightarrow> date_sub_days d t = 0"
    by (simp add: calculate_time_remaining_def p Let_def)
  show ?thesis
    unfolding expired today lt [symmetric] eq [symmetric]
    by (simp add: calculate_time_remaining_def p Let_def)
qed

theorem calculate_time_remaining_rules_witness:
  "strptime_ymd (PStr ''2024-02-27'') = Inr \<lparr>year = 2024, month = 2, day = 27\<rparr>
   \<and> valid_date \<lparr>year = 2024, month = 3, day = 1\<rparr>
   \<and> calculate_time_remaining \<lparr>year = 2024, month = 3, day = 1\<rparr> (PStr ''2024-02-27'') =
       \<lparr>days = 3, hours = 0, minutes = 0, is_expired = True, is_today = False,
        text_str = ''3d ago''\<rparr>
   \<and> calculate_time_remaining \<lparr>year = 2024, month = 3, day = 1\<rparr> (PStr ''2024-03-01'') =
       \<lparr>days = 0, hours = 0, minutes = 0, is_expired = False, is_today = True,
        text_str = ''TODAY!''\<rparr>
   \<and> calculate_time_remaining \<lparr>year = 2024, month = 3, day = 1\<rparr> (PStr ''2024-3-2'') =
       \<lparr>days = 1, hours = 0, minutes = 0, is_expired = False, is_today = False,
        text_str = ''1 Day''\<rparr>
   \<and> calculate_time_remaining \<lparr>year = 2024, month = 3, day = 1\<rparr> (PStr ''2025-03-01'') =
       \<lparr>days = 365, hours = 0, minutes = 0, is_expired = False, is_today = False,
        text_str = ''365 Days''\<rparr>"
  using calculate_time_remaining_rules [OF parse_sample_1 today_sample]
    calculate_time_remaining_rules [OF parse_sample_2 today_sample]
    calculate_time_remaining_rules [OF parse_sample_3 today_sample]
    calculate_time_remaining_rules [OF parse_sample_4 today_sample]
    parse_sample_1 today_sample
  by (simp add: delta_samples str_samples)

section \<open>The filter\<close>

lemma enabled_loop_filter:
  "\<forall>c \<in> set cs. entry_ok c \<Longrightarrow>
     enabled_loop s cs acc = Inr (acc @ filter (entry_shown s) cs)"
proof (induction cs arbitrary: acc)
  case Nil
  show ?case by simp
next
  case (Cons c cs)
  from Cons.prems have ok: "entry_ok c" and rest: "\<forall>c \<in> set cs. entry_ok c" by simp_all
  from ok obtain d k where c: "c = PDict d" and k: "hash_key (dict_get d ''id'' PNone) = Inr k"
    by (auto simp: entry_ok_def entry_key_def split: pyval.splits sum.splits)
  have ih: "\<And>acc. enabled_loop s cs acc = Inr (acc @ filter (entry_shown s) cs)"
    using Cons.IH [OF rest] .
  have sh: "entry_shown s (PDict d) \<longleftrightarrow>
      truthy (dict_get d ''enabled'' (PBool True))
      \<and> (\<not> (case countdown_values s k of Some r \<Rightarrow> is_expired r | None \<Rightarrow> False)
           \<or> truthy (show_expired s))"
    by (simp add: entry_shown_def entry_enabled_def entry_expired_def entry_key_def k)
  show ?case
    unfolding c
    by (simp add: k ih bindE_def entry_get_def sh split: option.splits)
qed

section \<open>What the filter returns\<close>





section \<open>Malformed dates\<close>




section \<open>The rotation tick\<close>

lemma round_double_samples:
  "round_double 16 = Finite 16" "round_double 14 = Finite 14" "round_double 20 = Finite 20"
proof -
  show "round_double 16 = Finite 16"
    by (rule round_double_eval [where e = 4])
      (simp_all add: pow2_def round_half_even_def floor_rat_numeral)
  show "round_double 14 = Finite 14"
    by (rule round_double_eval [where e = 3])
      (simp_all add: pow2_def round_half_even_def floor_rat_numeral)
  show "round_double 20 = Finite 20"
    by (rule round_double_eval [where e = 4])
      (simp_all add: pow2_def round_half_even_def floor_rat_numeral)
qed

lemma tick_sample_enabled:
  "get_enabled_countdowns (plugin_with [entry_b, entry_a]) = Inr [entry_b, entry_a]"
  by (simp add: get_enabled_countdowns_def plugin_with_def entry_a_def entry_b_def bindE_def
      entry_get_def dict_get_def)

lemma tick_sample_due:
  "ge_value (round_double (116 - last_rotation_time (plugin_with [entry_b, entry_a])))
     (get_display_duration (plugin_with [entry_b, entry_a])) = Inr True"
  by (simp add: plugin_with_def get_display_duration_def dict_get_def ge_value_def
      round_double_samples)

lemma tick_sample_not_due:
  "ge_value (round_double (114 - last_rotation_time (plugin_with [entry_b, entry_a])))
     (get_display_duration (plugin_with [entry_b, entry_a])) = Inr False"
  by (simp add: plugin_with_def get_display_duration_def dict_get_def ge_value_def
      round_double_samples)

text \<open>
  Claim C3, as the code has it. Let the filter return the list \<open>enabled\<close> at tick time
  and let the display duration be a number, so that the test \<open>elapsed >= duration\<close> has
  a truth value. If the test holds and the filtered list is not empty, the index becomes
  \<open>(index + 1) mod len(enabled)\<close>, \<open>last_rotation_time\<close> becomes the clock read at
  the rotation, and the call returns true. If the test holds and the filtered list is
  empty, the state is unchanged and the call still returns true. If the test fails, the
  state is unchanged and the call returns false. Without a configured duration the test
  is \<open>elapsed >= 15\<close>.
\<close>

theorem is_cycle_complete_tick:
  assumes en: "get_enabled_countdowns s = Inr enabled"
      and du: "ge_value (round_double (t1 - last_rotation_time s)) (get_display_duration s)
                 = Inr due"
  shows "is_cycle_complete t1 t2 s =
           (if due then
              (if enabled = [] then (Inr True, s)
               else (Inr True,
                     s\<lparr>current_countdown_index :=
                          (current_countdown_index s + 1) mod length enabled,
                        last_rotation_time := t2\<rparr>))
            else (Inr False, s))
       \<and> (map_of (config s) ''display_duration'' = None \<longrightarrow>
            due = float_ge (round_double (t1 - last_rotation_time s)) (Finite 15))"
proof -
  have "map_of (config s) ''display_duration'' = None \<Longrightarrow>
        due = float_ge (round_double (t1 - last_rotation_time s)) (Finite 15)"
    using du by (simp add: get_display_duration_def dict_get_def ge_value_def)
  moreover have "is_cycle_complete t1 t2 s =
           (if due then
              (if enabled = [] then (Inr True, s)
               else (Inr True,
                     s\<lparr>current_countdown_index :=
                          (current_countdown_index s + 1) mod length enabled,
                        last_rotation_time := t2\<rparr>))
            else (Inr False, s))"
    by (simp add: is_cycle_complete_def Let_def du rotate_to_next_countdown_def en bindE_def)
  ultimately show ?thesis by blast
qed

theorem is_cycle_complete_tick_witness:
  "get_enabled_countdowns (plugin_with [entry_b, entry_a]) = Inr [entry_b, entry_a]
   \<and> is_cycle_complete 116 117 (plugin_with [entry_b, entry_a]) =
       (Inr True, (plugin_with [entry_b, entry_a])
                    \<lparr>current_countdown_index := 1, last_rotation_time := 117\<rparr>)
   \<and> is_cycle_complete 114 117 (plugin_with [entry_b, entry_a]) =
       (Inr False, plugin_with [entry_b, entry_a])"
  using is_cycle_complete_tick [OF tick_sample_enabled tick_sample_due, of 117]
    is_cycle_complete_tick [OF tick_sample_enabled tick_sample_not_due, of 117]
    tick_sample_enabled
  by (simp add: plugin_with_def)

text \<open>
  With no entry to show, a tick that is due returns true and leaves
  \<open>last_rotation_time\<close> at its old value, 100, not at the clock value 120.
\<close>

theorem is_cycle_complete_empty_counterexample:
  "fst (is_cycle_complete 120 120 (plugin_with [])) = Inr True
   \<and> last_rotation_time (snd (is_cycle_complete 120 120 (plugin_with []))) = 100"
  by (simp add: is_cycle_complete_def plugin_with_def get_display_duration_def dict_get_def
      ge_value_def round_double_samples rotate_to_next_countdown_def get_enabled_countdowns_def
      bindE_def)

section \<open>What \<open>_parse_color\<close> returns\<close>

lemma color_component_cases:
  assumes "\<not> overflows fs c"
  shows "(case component_with trunc_rat fs c of
            Some v \<Rightarrow> color_component fs c = Inr v
          | None \<Rightarrow> color_component fs c = Inl ValueError \<or> color_component fs c = Inl TypeError)"
  using assms
  by (auto simp: overflows_def component_with_def color_component_def bindE_def int_of_float_def
      Let_def split: pyval.splits sum.splits pyfloat.splits pyexc.splits)

lemma color_loop_ok:
  assumes "list_all (\<lambda>c. \<not> overflows fs c) xs"
      and "list_all (\<lambda>c. component_with trunc_rat fs c \<noteq> None) xs"
  shows "color_loop fs xs acc = Inr (acc @ map (\<lambda>c. the (component_with trunc_rat fs c)) xs)"
  using assms
proof (induction xs arbitrary: acc)
  case Nil
  show ?case by simp
next
  case (Cons c cs)
  from Cons.prems obtain v where v: "component_with trunc_rat fs c = Some v" by auto
  from Cons.prems have "\<not> overflows fs c" by simp
  from color_component_cases [OF this] v have "color_component fs c = Inr v" by simp
  with Cons v show ?case by simp
qed

lemma color_loop_bad:
  assumes "list_all (\<lambda>c. \<not> overflows fs c) xs"
      and "\<not> list_all (\<lambda>c. component_with trunc_rat fs c \<noteq> None) xs"
  shows "color_loop fs xs acc = Inl ValueError \<or> color_loop fs xs acc = Inl TypeError"
  using assms
proof (induction xs arbitrary: acc)
  case Nil
  then show ?case by simp
next
  case (Cons c cs)
  from Cons.prems have no: "\<not> overflows fs c" by simp
  show ?case
  proof (cases "component_with trunc_rat fs c")
    case None
    with color_component_cases [OF no] show ?thesis by auto
  next
    case (Some v)
    with color_component_cases [OF no] have "color_component fs c = Inr v" by simp
    moreover from Some Cons.prems have "\<not> list_all (\<lambda>c. component_with trunc_rat fs c \<noteq> None) cs"
      by simp
    moreover from Cons.prems have "list_all (\<lambda>c. \<not> overflows fs c) cs" by simp
    ultimately show ?thesis using Cons.IH by simp
  qed
qed

text \<open>
  Claim C7, as the code has it. For every input value and every default such that no
  element of the value converts to an infinite float, \<open>_parse_color\<close> returns normally.
  If the value is a list or tuple of three elements, each an integer in \<open>[0, 255]\<close>,
  a finite float whose truncation toward zero lies in \<open>[0, 255]\<close>, or a string that
  \<open>float\<close> reads as such a float, it returns the three integers; in every other case
  (an element out of range, of another type or not a number, a wrong length, a value that
  is no list or tuple) it returns the default unchanged.
\<close>

theorem parse_color_total:
  assumes "list_all (\<lambda>c. \<not> overflows fs c) (color_elements color_value)"
  shows "parse_color fs color_value dflt = Inr (color_with trunc_rat fs color_value dflt)"
proof (cases "sequence3 color_value")
  case None
  then show ?thesis by (simp add: parse_color_def color_with_def)
next
  case (Some xs)
  with assms have no: "list_all (\<lambda>c. \<not> overflows fs c) xs" by (simp add: color_elements_def)
  show ?thesis
  proof (cases "list_all (\<lambda>c. component_with trunc_rat fs c \<noteq> None) xs")
    case True
    from color_loop_ok [OF no True, of "[]"] True Some show ?thesis
      by (simp add: parse_color_def color_with_def)
  next
    case False
    from color_loop_bad [OF no False, of "[]"] False Some show ?thesis
      by (auto simp: parse_color_def color_with_def)
  qed
qed

theorem parse_color_total_witness:
  "list_all (\<lambda>c. \<not> overflows no_numeric_strings c)
     (color_elements (PList [PInt 1, PBool True, PFloat (Finite (511 / 2))]))
   \<and> parse_color no_numeric_strings (PList [PInt 1, PBool True, PFloat (Finite (511 / 2))])
        [9, 9, 9] = Inr [1, 1, 255]
   \<and> list_all (\<lambda>c. \<not> overflows no_numeric_strings c)
        (color_elements (PList [PStr ''x'', PStr ''y'', PStr ''z'']))
   \<and> parse_color no_numeric_strings (PList [PStr ''x'', PStr ''y'', PStr ''z'']) [9, 9, 9]
        = Inr [9, 9, 9]
   \<and> parse_color no_numeric_strings (PInt 7) [9, 9, 9] = Inr [9, 9, 9]"
proof -
  have a: "list_all (\<lambda>c. \<not> overflows no_numeric_strings c)
     (color_elements (PList [PInt 1, PBool True, PFloat (Finite (511 / 2))]))"
    by (simp add: color_elements_def sequence3_def overflows_def)
  have b: "list_all (\<lambda>c. \<not> overflows no_numeric_strings c)
        (color_elements (PList [PStr ''x'', PStr ''y'', PStr ''z'']))"
    by (simp add: color_elements_def sequence3_def overflows_def no_numeric_strings_def)
  have c: "list_all (\<lambda>c. \<not> overflows no_numeric_strings c) (color_elements (PInt 7))"
    by (simp add: color_elements_def sequence3_def)
  show ?thesis
    using parse_color_total [OF a, of "[9, 9, 9]"] parse_color_total [OF b, of "[9, 9, 9]"]
      parse_color_total [OF c, of "[9, 9, 9]"] a b
    by (simp add: color_with_def sequence3_def component_with_def trunc_rat_def
        no_numeric_strings_def floor_rat_numeral)
qed

lemma minus_half_conversions: "trunc_rat (- 1 / 2) = 0" "\<lfloor>- 1 / 2 :: rat\<rfloor> = - 1"
proof -
  have "\<lceil>- 1 / 2 :: rat\<rceil> = 0" by (rule ceiling_unique) simp_all
  then show "trunc_rat (- 1 / 2) = 0" by (simp add: trunc_rat_def)
  show "\<lfloor>- 1 / 2 :: rat\<rfloor> = - 1" by (rule floor_unique) simp_all
qed

text \<open>
  The float \<open>-0.5\<close> truncates to 0, which is in range, so the code returns
  \<open>(0, 0, 0)\<close>; its floor is \<open>-1\<close>, out of range, for which the claim gives the
  default.
\<close>

theorem parse_color_truncation_counterexample:
  "parse_color no_numeric_strings (PList [PFloat (Finite (- 1 / 2)), PInt 0, PInt 0])
     [255, 255, 255] = Inr [0, 0, 0]
   \<and> parse_color_spec no_numeric_strings (PList [PFloat (Finite (- 1 / 2)), PInt 0, PInt 0])
       [255, 255, 255] = [255, 255, 255]"
  using minus_half_conversions
  by (simp add: parse_color_def sequence3_def color_component_def bindE_def int_of_float_def
      parse_color_spec_def color_with_def component_with_def)

text \<open>
  An infinite float raises OverflowError in \<open>int\<close>, which the \<open>except\<close> clause
  does not list: the exception leaves \<open>_parse_color\<close>.
\<close>

lemma parse_color_overflow_escapes:
  "parse_color fs (PList [PFloat PosInf, PInt 0, PInt 0]) dflt = Inl OverflowError"
  by (simp add: parse_color_def sequence3_def color_component_def bindE_def int_of_float_def)

section \<open>Frames and faults\<close>

lemma run_calls_all:
  "\<forall>c. call_raises h c = None \<Longrightarrow> run_calls h cs surface = (None, surface @ cs)"
  by (induction cs arbitrary: surface) simp_all

lemma two_line_frame_works:
  assumes "surface_works h w ht"
  shows "two_line_frame h color (Some f) line1 line2 surface
           = surface @ two_lines w ht color f line1 line2"
    and "two_line_frame h color None line1 line2 surface
           = surface @ [SetImage (Canvas w ht color None), UpdateDisplay]"
  using assms
  by (simp_all add: surface_works_def two_line_frame_def image_new_def run_calls_all two_lines_def)

lemma display_returns_when_filter_returns:
  assumes "get_enabled_countdowns s = Inr enabled"
  shows "fst (display h force_clear s surface) = None"
  using assms
  by (simp add: display_def get_current_countdown_def bindE_def Let_def
      split: option.splits prod.splits)

lemma display_empty:
  assumes "get_enabled_countdowns s = Inr []"
  shows "display h force_clear s surface = (None, s, display_no_countdowns h s surface)"
  using assms by (simp add: display_def get_current_countdown_def bindE_def)

lemma display_fault:
  assumes "get_current_countdown s = Inr (Some c, s1)" and "truthy c"
    and "display_frame h s1 c force_clear surface = (Some e, s2, surface2)"
  shows "display h force_clear s surface = (None, s2, display_error h s2 surface2)"
  using assms by (simp add: display_def)

section \<open>How the operations change the image cache\<close>







lemma entry_keys_countdowns: "countdowns a = countdowns b \<Longrightarrow> entry_keys a = entry_keys b"
  by (simp add: entry_keys_def)













section \<open>The sample run\<close>













section \<open>\<open>display\<close> returns normally\<close>

lemma sample_fault_ok: "\<forall>c \<in> set (countdowns (plugin_with [entry_a])). entry_ok c"
  by (simp add: plugin_with_def entry_ok_def entry_key_def entry_a_def dict_get_def)

lemma sample_fault_current:
  "get_current_countdown (plugin_with [entry_a]) = Inr (Some entry_a, plugin_with [entry_a])"
  by (simp add: get_current_countdown_def get_enabled_countdowns_def plugin_with_def entry_a_def
      bindE_def entry_get_def dict_get_def)

lemma sample_fault_frame:
  "display_frame host_failing_load (plugin_with [entry_a]) entry_a False []
     = (Some TypeError, plugin_with [entry_a], [])"
  by (simp add: display_frame_def host_failing_load_def sample_host_def image_new_def
      plugin_with_def entry_a_def bindE_def entry_get_def dict_get_def cached_image_for_def
      image_path_of_def Let_def)

text \<open>
  Claim C4, as the code has it. In every plugin state whose entries are dictionaries with
  hashable ids, and for every \<open>force_clear\<close> and every host, \<open>display\<close> returns
  normally. When the filtered list is empty it runs the "No Active / Countdowns" frame.
  A fault during frame assembly is caught and the error frame is run in its place. Both
  frames catch their own faults and draw their two lines only with a font: on a display
  surface that works, with the font resolved, the error frame is a black canvas with
  "Countdown" and "Error", and the other one a background canvas with "No Active" and
  "Countdowns".
\<close>

theorem display_returns_normally:
  assumes ok: "\<forall>c \<in> set (countdowns s). entry_ok c"
  shows "fst (display h force_clear s surface) = None
       \<and> (filter (entry_shown s) (countdowns s) = [] \<longrightarrow>
            display h force_clear s surface = (None, s, display_no_countdowns h s surface))
       \<and> (\<forall>c s1 e s2 surface2.
            get_current_countdown s = Inr (Some c, s1) \<and> truthy c
            \<and> display_frame h s1 c force_clear surface = (Some e, s2, surface2)
            \<longrightarrow> display h force_clear s surface = (None, s2, display_error h s2 surface2))
       \<and> (\<forall>w ht f st sf.
            surface_works h w ht
            \<and> try_resolve_font h (plugin_id st @ ''.error'') (PStr ''press_start'') (PInt 8)
                = Some f
            \<longrightarrow> display_error h st sf = sf @ two_lines w ht [0, 0, 0] f ''Countdown'' ''Error'')
       \<and> (\<forall>w ht f st sf.
            surface_works h w ht
            \<and> try_resolve_font h (plugin_id st @ ''.countdown_name'') (font_family st)
                 (name_font_size st) = Some f
            \<longrightarrow> display_no_countdowns h st sf
                  = sf @ two_lines w ht (background_color st) f ''No Active'' ''Countdowns'')"
proof -
  have en: "get_enabled_countdowns s = Inr (filter (entry_shown s) (countdowns s))"
    using ok by (simp add: get_enabled_countdowns_def enabled_loop_filter)
  have 1: "fst (display h force_clear s surface) = None"
    using en by (rule display_returns_when_filter_returns)
  have 2: "filter (entry_shown s) (countdowns s) = [] \<longrightarrow>
            display h force_clear s surface = (None, s, display_no_countdowns h s surface)"
    using en display_empty [of s h force_clear surface] by simp
  have 3: "\<forall>c s1 e s2 surface2.
            get_current_countdown s = Inr (Some c, s1) \<and> truthy c
            \<and> display_frame h s1 c force_clear surface = (Some e, s2, surface2)
            \<longrightarrow> display h force_clear s surface = (None, s2, display_error h s2 surface2)"
    using display_fault by blast
  have 4: "\<forall>w ht f st sf.
            surface_works h w ht
            \<and> try_resolve_font h (plugin_id st @ ''.error'') (PStr ''press_start'') (PInt 8)
                = Some f
            \<longrightarrow> display_error h st sf = sf @ two_lines w ht [0, 0, 0] f ''Countdown'' ''Error''"
    by (simp add: display_error_def two_line_frame_works)
  have 5: "\<forall>w ht f st sf.
            surface_works h w ht
            \<and> try_resolve_font h (plugin_id st @ ''.countdown_name'') (font_family st)
                 (name_font_size st) = Some f
            \<longrightarrow> display_no_countdowns h st sf
                  = sf @ two_lines w ht (background_color st) f ''No Active'' ''Countdowns''"
    by (simp add: display_no_countdowns_def two_line_frame_works)
  from 1 2 3 4 5 show ?thesis by blast
qed

lemma sample_surfaces:
  "surface_works host_failing_load 64 32" "surface_works sample_host 64 32"
  by (simp_all add: surface_works_def host_failing_load_def sample_host_def)

lemma sample_error_font:
  "try_resolve_font host_failing_load (plugin_id (plugin_with [entry_a]) @ ''.error'')
     (PStr ''press_start'') (PInt 8) = Some 1"
  by (simp add: try_resolve_font_def host_failing_load_def sample_host_def any_font_def)

theorem display_returns_normally_witness:
  "list_all entry_ok (countdowns (plugin_with [entry_a]))
   \<and> display_frame host_failing_load (plugin_with [entry_a]) entry_a False []
       = (Some TypeError, plugin_with [entry_a], [])
   \<and> display host_failing_load False (plugin_with [entry_a]) []
       = (None, plugin_with [entry_a], two_lines 64 32 [0, 0, 0] 1 ''Countdown'' ''Error'')"
proof -
  note t = display_returns_normally [OF sample_fault_ok, of host_failing_load False "[]"]
  have tr: "truthy entry_a" by (simp add: entry_a_def)
  from t sample_fault_current tr sample_fault_frame
  have "display host_failing_load False (plugin_with [entry_a]) []
       = (None, plugin_with [entry_a], display_error host_failing_load (plugin_with [entry_a]) [])"
    by blast
  moreover from t sample_surfaces(1) sample_error_font
  have "display_error host_failing_load (plugin_with [entry_a]) []
       = [] @ two_lines 64 32 [0, 0, 0] 1 ''Countdown'' ''Error''"
    by blast
  ultimately show ?thesis
    using sample_fault_ok sample_fault_frame by (simp add: list_all_iff)
qed

text \<open>
  On a host without a font manager a fault of the frame (here the image file cannot be
  loaded) ends in a blank black frame, not in the two-line fallback; and an entry whose
  id is a list makes the filter raise TypeError before the \<open>try\<close>, so the exception
  leaves \<open>display\<close>.
\<close>

theorem display_fallback_counterexample:
  "fst (display_frame host_without_fonts (plugin_with [entry_a]) entry_a False []) = Some TypeError
   \<and> display host_without_fonts False (plugin_with [entry_a]) []
       = (None, plugin_with [entry_a], [SetImage (Canvas 64 32 [0, 0, 0] None), UpdateDisplay])
   \<and> fst (display sample_host False (plugin_with [entry_bad_id]) []) = Some TypeError"
proof -
  have f: "display_frame host_without_fonts (plugin_with [entry_a]) entry_a False []
     = (Some TypeError, plugin_with [entry_a], [])"
    by (simp add: display_frame_def host_without_fonts_def host_failing_load_def sample_host_def
        image_new_def plugin_with_def entry_a_def bindE_def entry_get_def dict_get_def
        cached_image_for_def image_path_of_def Let_def)
  have w: "surface_works host_without_fonts 64 32"
    by (simp add: surface_works_def host_without_fonts_def host_failing_load_def sample_host_def)
  have e: "display_error host_without_fonts (plugin_with [entry_a]) []
             = [SetImage (Canvas 64 32 [0, 0, 0] None), UpdateDisplay]"
    using two_line_frame_works(2) [OF w, of "[0, 0, 0]" "''Countdown''" "''Error''" "[]"]
    by (simp add: display_error_def try_resolve_font_def host_without_fonts_def)
  have tr: "truthy entry_a" by (simp add: entry_a_def)
  have d: "display host_without_fonts False (plugin_with [entry_a]) []
       = (None, plugin_with [entry_a], [SetImage (Canvas 64 32 [0, 0, 0] None), UpdateDisplay])"
    using display_fault [OF sample_fault_current tr f] e by simp
  have r: "fst (display sample_host False (plugin_with [entry_bad_id]) []) = Some TypeError"
    by (simp add: display_def get_current_countdown_def get_enabled_countdowns_def
        plugin_with_def entry_bad_id_def bindE_def entry_get_def dict_get_def)
  from f d r show ?thesis by simp
qed

section \<open>The placeholder for a missing result\<close>




lemma init_no_results:
  assumes "init fs pid cfg now = Inr s"
  shows "countdown_values s = Map.empty"
  using assms by (auto simp: init_def bindE_def split: sum.splits)

lemma update_loop_skips_missing_id: "update_loop today cs vals KNone = vals KNone"
proof (induction cs arbitrary: vals)
  case Nil
  show ?case by simp
next
  case (Cons c cs)
  have k: "\<And>v. truthy v \<Longrightarrow> hash_key v \<noteq> Inr KNone"
  proof -
    fix v show "truthy v \<Longrightarrow> hash_key v \<noteq> Inr KNone"
      by (cases v rule: hash_key.cases) (auto split: sum.splits)
  qed
  show ?case
    using Cons.IH k
    by (auto simp: entry_get_def split: pyval.splits sum.splits)
qed





section \<open>When the image cache is cleared\<close>




section \<open>The keys of the image cache\<close>






section \<open>The fit size in floating point\<close>

lemma sample_scale_x: "py_truediv 21 20 = Inr (4728779608739021 / 4503599627370496)"
proof -
  have "round_double (of_int 21 / of_int 20) = Finite (4728779608739021 / 4503599627370496)"
    by (rule round_double_eval [where e = 0]) (simp_all add: pow2_def round_half_even_def floor_rat_numeral)
  then show ?thesis by (simp add: py_truediv_def)
qed

lemma sample_scale_y: "py_truediv 32 49 = Inr (5882252574524729 / 9007199254740992)"
proof -
  have "round_double (of_int 32 / of_int 49) = Finite (5882252574524729 / 9007199254740992)"
    by (rule round_double_eval [where e = "- 1"]) (simp_all add: pow2_def round_half_even_def floor_rat_numeral)
  then show ?thesis by (simp add: py_truediv_def)
qed

lemma sample_float_20: "float_of_int 20 = Inr 20"
proof -
  have "round_double (of_int 20) = Finite 20"
    by (rule round_double_eval [where e = 4]) (simp_all add: pow2_def round_half_even_def floor_rat_numeral)
  then show ?thesis by (simp add: float_of_int_def)
qed

lemma sample_float_49: "float_of_int 49 = Inr 49"
proof -
  have "round_double (of_int 49) = Finite 49"
    by (rule round_double_eval [where e = 5]) (simp_all add: pow2_def round_half_even_def floor_rat_numeral)
  then show ?thesis by (simp add: float_of_int_def)
qed

lemma sample_width: "scaled_dim 20 (5882252574524729 / 9007199254740992) = Inr 13"
proof -
  have "round_double (20 * (5882252574524729 / 9007199254740992))
          = Finite (7352815718155911 / 562949953421312)"
    by (rule round_double_eval [where e = 3]) (simp_all add: pow2_def round_half_even_def floor_rat_numeral)
  then show ?thesis
    by (simp add: scaled_dim_def sample_float_20 bindE_def int_of_float_def trunc_rat_def floor_rat_numeral)
qed

lemma sample_height: "scaled_dim 49 (5882252574524729 / 9007199254740992) = Inr 31"
proof -
  have "round_double (49 * (5882252574524729 / 9007199254740992))
          = Finite (9007199254740991 / 281474976710656)"
    by (rule round_double_eval [where e = 4]) (simp_all add: pow2_def round_half_even_def floor_rat_numeral)
  then show ?thesis
    by (simp add: scaled_dim_def sample_float_49 bindE_def int_of_float_def trunc_rat_def floor_rat_numeral)
qed

lemma fit_spec_sample: "fit_size_spec (20, 49) (21, 32) = (13, 32)"
  by (simp add: fit_size_spec_def floor_rat_numeral)

text \<open>
  Claim C8, at a 20 by 49 image and the 21 by 32 box of a 64 by 32 display. The exact
  scale is \<open>32/49\<close>, so the specification's size is \<open>(13, 32)\<close> and touches the height
  of the box. The code computes \<open>32/49\<close> and \<open>49 * scale\<close> in floating point: the
  product is the float just below 32, which \<open>int\<close> truncates to 31, so the returned size
  \<open>(13, 31)\<close> touches no edge of the box, although the aspect ratios differ.
\<close>

theorem calculate_fit_size_rounding:
  "calculate_fit_size (20, 49) (21, 32) = Inr (13, 31)
   \<and> fit_size_spec (20, 49) (21, 32) = (13, 32)"
  by (simp add: calculate_fit_size_def sample_scale_x sample_scale_y bindE_def
      sample_width sample_height fit_spec_sample)

end
